theory Spec2Isabelle
  imports Main "HOL-Library.Word" "HOL-Library.Log_Nat" "HOL-Library.Char_ord"
    "HOL-Library.List_Lexorder"
begin

unbundle bit_operations_syntax

section \<open>Run-time failures\<close>

text \<open>
  A Go panic ends the call. Every function of the model that can panic returns a sum,
  with the panic on the left.
\<close>

datatype panic =
    SliceBoundsOutOfRange
  | NilPointerDereference
  | IndexOutOfRange
  | Explicit string

section \<open>Cluster routing: \<open>cluster/core/utils.go\<close>\<close>

text \<open>
  \<open>strings.Index(key, sep)\<close> for a separator of one byte: the index of the first
  occurrence, or \<open>-1\<close>.
\<close>

fun Index :: "string \<Rightarrow> char \<Rightarrow> int" where
  "Index [] c = -1"
| "Index (x # xs) c =
     (if x = c then 0 else (let r = Index xs c in if r = -1 then -1 else r + 1))"

text \<open>
  The slice expression \<open>s[lo:hi]\<close> of Go on a string: it panics unless
  \<open>0 \<le> lo \<le> hi \<le> len(s)\<close>.
\<close>

definition slice :: "string \<Rightarrow> int \<Rightarrow> int \<Rightarrow> panic + string" where
  "slice s lo hi =
     (if 0 \<le> lo \<and> lo \<le> hi \<and> hi \<le> int (length s)
      then Inr (take (nat (hi - lo)) (drop (nat lo) s))
      else Inl SliceBoundsOutOfRange)"

definition GetPartitionKey :: "string \<Rightarrow> panic + string" where
  "GetPartitionKey key =
     (let beg = Index key CHR ''{'' in
      if beg = -1 then Inr key
      else let end = Index key CHR ''}'' in
        if end = -1 \<or> end = beg + 1 then Inr key
        else slice key (beg + 1) end)"

text \<open>
  \<open>crc32.ChecksumIEEE\<close> of the Go standard library: the reflected CRC-32 with
  polynomial \<open>0xEDB88320\<close>, initial value and final XOR \<open>0xFFFFFFFF\<close>, computed
  bit by bit.
\<close>

fun crc_bits :: "nat \<Rightarrow> 32 word \<Rightarrow> 32 word" where
  "crc_bits 0 crc = crc"
| "crc_bits (Suc n) crc =
     crc_bits n (if crc AND 1 = 1 then drop_bit 1 crc XOR 0xEDB88320 else drop_bit 1 crc)"

fun crc_update :: "32 word \<Rightarrow> string \<Rightarrow> 32 word" where
  "crc_update crc [] = crc"
| "crc_update crc (b # bs) = crc_update (crc_bits 8 (crc XOR of_char b)) bs"

definition ChecksumIEEE :: "string \<Rightarrow> 32 word" where
  "ChecksumIEEE bs = crc_update 0xFFFFFFFF bs XOR 0xFFFFFFFF"

definition SlotCount :: int where
  "SlotCount = 1024"

definition GetSlot :: "string \<Rightarrow> panic + 32 word" where
  "GetSlot key =
     (case GetPartitionKey key of
        Inl e \<Rightarrow> Inl e
      | Inr partitionKey \<Rightarrow> Inr (ChecksumIEEE partitionKey mod word_of_int SlotCount))"

section \<open>The lock table: package \<open>lock\<close>\<close>

text \<open>
  A \<open>sync.RWMutex\<close> is held by one writer or by a number of readers. The table of
  the lock is a slice of mutexes; \<open>Make\<close> allocates \<open>tableSize\<close> free ones.
\<close>

record RWMutex =
  writer :: bool
  readers :: nat

record Locks =
  table :: "RWMutex list"

definition Make :: "nat \<Rightarrow> Locks" where
  "Make tableSize = \<lparr>table = replicate tableSize \<lparr>writer = False, readers = 0\<rparr>\<rparr>"

definition prime32 :: "32 word" where
  "prime32 = 16777619"

text \<open>The loop of \<open>fnv32\<close> over the bytes of the key: multiply, then XOR the byte.\<close>

fun fnv32_loop :: "32 word \<Rightarrow> string \<Rightarrow> 32 word" where
  "fnv32_loop hash [] = hash"
| "fnv32_loop hash (c # cs) = fnv32_loop ((hash * prime32) XOR of_char c) cs"

definition fnv32 :: "string \<Rightarrow> 32 word" where
  "fnv32 key = fnv32_loop 2166136261 key"

definition spread :: "Locks \<Rightarrow> 32 word \<Rightarrow> 32 word" where
  "spread locks hashCode =
     (let tableSize = (of_nat (length (table locks)) :: 32 word)
      in hashCode AND (tableSize - 1))"

text \<open>
  \<open>toLockIndices\<close>. The Go map \<open>indexMap\<close> is a set of indices; ranging over it
  visits each index once, in an order Go leaves open. The model keeps the indices in
  order of first insertion; the sort that follows makes the result independent of it.
  \<open>indices\<close> is made with \<open>make([]uint32, len(indexMap))\<close>, that is with
  \<open>len(indexMap)\<close> zero elements already in it, and every index is appended
  behind them.
\<close>

definition indexMap_of :: "Locks \<Rightarrow> string list \<Rightarrow> 32 word list" where
  "indexMap_of locks keys = remdups (map (\<lambda>key. spread locks (fnv32 key)) keys)"

definition toLockIndices :: "Locks \<Rightarrow> string list \<Rightarrow> bool \<Rightarrow> 32 word list" where
  "toLockIndices locks keys reverse =
     (let indexMap = indexMap_of locks keys;
          indices = replicate (length indexMap) 0 @ indexMap
      in if \<not> reverse then sort indices else rev (sort indices))"

text \<open>
  \<open>RWLocks\<close> calls \<open>Lock\<close> or \<open>RLock\<close> on one mutex after the other. The model
  returns the calls in the order they are made; \<open>lock.table[index]\<close> panics when
  the index is outside the table.
\<close>

datatype acquire = WLock "32 word" | RLock "32 word"

fun acquire_all :: "Locks \<Rightarrow> 32 word list \<Rightarrow> 32 word list \<Rightarrow> panic + acquire list" where
  "acquire_all lock writeIndexSet [] = Inr []"
| "acquire_all lock writeIndexSet (index # indices) =
     (if unat index < length (table lock)
      then (case acquire_all lock writeIndexSet indices of
              Inl e \<Rightarrow> Inl e
            | Inr rest \<Rightarrow>
                Inr ((if index \<in> set writeIndexSet then WLock index else RLock index) # rest))
      else Inl IndexOutOfRange)"

definition RWLocks :: "Locks \<Rightarrow> string list \<Rightarrow> string list \<Rightarrow> panic + acquire list" where
  "RWLocks lock writeKeys readKeys =
     (let keys = writeKeys @ readKeys;
          indices = toLockIndices lock keys False;
          writeIndexSet = indexMap_of lock writeKeys
      in acquire_all lock writeIndexSet indices)"

section \<open>Score borders: package \<open>sortedset\<close>\<close>

text \<open>
  A score is a \<open>float64\<close>. The model takes the scores that are numbers (no NaN) and
  reads them as reals: the comparisons \<open><\<close>, \<open>>\<close> and \<open>==\<close> of the source are
  the order of the reals on them.
\<close>

record Element =
  Member :: string
  Score :: real

definition scoreNegativeInf :: "8 word" where
  "scoreNegativeInf = -1"

definition scorePositiveInf :: "8 word" where
  "scorePositiveInf = 1"

record ScoreBorder =
  Inf :: "8 word"
  Value :: real
  Exclude :: bool

definition greater :: "ScoreBorder \<Rightarrow> Element \<Rightarrow> bool" where
  "greater border element =
     (let value = Score element in
      if Inf border = scoreNegativeInf then False
      else if Inf border = scorePositiveInf then True
      else if Exclude border then Value border > value
      else Value border \<ge> value)"

definition less_than :: "ScoreBorder \<Rightarrow> Element \<Rightarrow> bool" where
  "less_than border element =
     (let value = Score element in
      if Inf border = scoreNegativeInf then True
      else if Inf border = scorePositiveInf then False
      else if Exclude border then Value border < value
      else Value border \<le> value)"

definition getExclude :: "ScoreBorder \<Rightarrow> bool" where
  "getExclude border = Exclude border"

definition scorePositiveInfBorder :: ScoreBorder where
  "scorePositiveInfBorder = \<lparr>Inf = scorePositiveInf, Value = 0, Exclude = False\<rparr>"

definition scoreNegativeInfBorder :: ScoreBorder where
  "scoreNegativeInfBorder = \<lparr>Inf = scoreNegativeInf, Value = 0, Exclude = False\<rparr>"

definition isIntersected :: "ScoreBorder \<Rightarrow> ScoreBorder \<Rightarrow> bool" where
  "isIntersected border mx =
     (let minValue = Value border;
          maxValue = Value mx
      in minValue > maxValue \<or>
         (minValue = maxValue \<and> (getExclude border \<or> getExclude mx)))"

text \<open>
  The reading of the specification, to compare \<open>isIntersected\<close> with: a border
  stands for minus infinity, a real number or plus infinity according to its \<open>Inf\<close>
  field, and two borders are compared as such bounds.
\<close>

datatype bound = MinusInfinity | Real real | PlusInfinity

definition bound_of :: "ScoreBorder \<Rightarrow> bound" where
  "bound_of border =
     (if Inf border = scoreNegativeInf then MinusInfinity
      else if Inf border = scorePositiveInf then PlusInfinity
      else Real (Value border))"

fun bound_gt :: "bound \<Rightarrow> bound \<Rightarrow> bool" where
  "bound_gt MinusInfinity b = False"
| "bound_gt (Real x) MinusInfinity = True"
| "bound_gt (Real x) (Real y) = (x > y)"
| "bound_gt (Real x) PlusInfinity = False"
| "bound_gt PlusInfinity PlusInfinity = False"
| "bound_gt PlusInfinity b = True"

definition spec_isIntersected :: "ScoreBorder \<Rightarrow> ScoreBorder \<Rightarrow> bool" where
  "spec_isIntersected mn mx =
     (bound_gt (bound_of mn) (bound_of mx) \<or>
      (bound_of mn = bound_of mx \<and> (Exclude mn \<or> Exclude mx)))"

section \<open>The skip list: package \<open>sortedset\<close>\<close>

definition maxLevel :: nat where
  "maxLevel = 16"

text \<open>
  \<open>bits.Len64\<close> of the Go standard library: the number of bits needed to write the
  argument, 0 for 0. The model shifts the argument right until nothing is left.
\<close>

fun Len64_loop :: "nat \<Rightarrow> 64 word \<Rightarrow> nat" where
  "Len64_loop 0 x = 0"
| "Len64_loop (Suc n) x = (if x = 0 then 0 else Suc (Len64_loop n (drop_bit 1 x)))"

definition Len64 :: "64 word \<Rightarrow> int" where
  "Len64 x = int (Len64_loop 64 x)"

text \<open>
  \<open>randomLevel\<close>, as a function of the value \<open>u\<close> that \<open>rand.Uint64()\<close> returns.
  The result is an \<open>int16\<close>.
\<close>

definition randomLevel :: "64 word \<Rightarrow> 16 word" where
  "randomLevel u =
     (let total = push_bit maxLevel (1 :: 64 word) - 1;
          k = u mod total
      in of_nat maxLevel - word_of_int (Len64 (k + 1)) + 1)"

text \<open>
  The nodes of the skip list live in a store, as those of the linked list do: a pointer
  is the index of its node in \<open>nodes\<close>, \<open>None\<close> is \<open>nil\<close>, and a new node is put
  behind the others. Go has no dangling pointers, so a pointer that is not \<open>nil\<close> is
  read with \<open>!\<close>. Each \<open>*Level\<close> of a node is an object of its own and never
  \<open>nil\<close>; the model keeps the levels of a node by value. \<open>span\<close>, \<open>length\<close> and the
  ranks are \<open>int64\<close> and far from their bounds, the level of the list is an
  \<open>int16\<close> between 1 and 16: they are \<open>int\<close> and \<open>nat\<close> here. Strings are
  compared byte by byte, as Go does.
\<close>

record Level =
  forward :: "nat option"
  span :: int

record node = Element +
  backward :: "nat option"
  level :: "Level list"

record skiplist =
  header :: nat
  tail :: "nat option"
  sl_length :: int
  sl_level :: nat
  nodes :: "node list"

text \<open>
  The result of a call: \<open>None\<close> when the call does not return, a panic, or a value.
\<close>

type_synonym 'a res = "(panic + 'a) option"

definition ok :: "'a \<Rightarrow> 'a res" where
  "ok x = Some (Inr x)"

definition fail :: "panic \<Rightarrow> 'a res" where
  "fail e = Some (Inl e)"

definition and_then :: "'a res \<Rightarrow> ('a \<Rightarrow> 'b res) \<Rightarrow> 'b res" where
  "and_then m f = (case m of None \<Rightarrow> None | Some (Inl e) \<Rightarrow> Some (Inl e) | Some (Inr x) \<Rightarrow> f x)"

definition makeNode :: "nat \<Rightarrow> real \<Rightarrow> string \<Rightarrow> node" where
  "makeNode lvl score member =
     \<lparr>Member = member, Score = score, backward = None,
      level = replicate lvl \<lparr>forward = None, span = 0\<rparr>\<rparr>"

definition makeSkiplist :: skiplist where
  "makeSkiplist =
     \<lparr>header = 0, tail = None, sl_length = 0, sl_level = 1, nodes = [makeNode maxLevel 0 '''']\<rparr>"

text \<open>
  \<open>p.level[i]\<close>: a panic when \<open>p\<close> is \<open>nil\<close> or \<open>i\<close> is outside the slice.
  \<open>set_level\<close> writes the fields of a \<open>Level\<close> that was read before.
\<close>

definition get_level :: "node list \<Rightarrow> nat option \<Rightarrow> nat \<Rightarrow> Level res" where
  "get_level ns p i =
     (case p of
        None \<Rightarrow> fail NilPointerDereference
      | Some a \<Rightarrow>
          if i < length (level (ns ! a)) then ok (level (ns ! a) ! i)
          else fail IndexOutOfRange)"

definition set_level :: "node list \<Rightarrow> nat \<Rightarrow> nat \<Rightarrow> Level \<Rightarrow> node list" where
  "set_level ns a i lv = ns[a := (ns ! a)\<lparr>level := (level (ns ! a))[i := lv]\<rparr>]"

definition element_of :: "node \<Rightarrow> Element" where
  "element_of n = \<lparr>Member = Member n, Score = Score n\<rparr>"

text \<open>
  The inner loop that all searches share:
  \<^verbatim>\<open>for node.level[i].forward != nil && cond { rank += node.level[i].span; node = node.level[i].forward }\<close>
  The condition \<open>cond\<close> may read the rank so far, the level entry of the node and the
  node in front. The loop runs as long as the store sends it on, so it is a partial
  function.
\<close>

partial_function (option) walk ::
  "node list \<Rightarrow> nat \<Rightarrow> (int \<Rightarrow> Level \<Rightarrow> node \<Rightarrow> bool) \<Rightarrow> nat \<Rightarrow> int \<Rightarrow> (panic + nat \<times> int) option"
where
  "walk ns i cond a rank =
     (if i < length (level (ns ! a)) then
        (let lv = level (ns ! a) ! i in
         case forward lv of
           None \<Rightarrow> Some (Inr (a, rank))
         | Some f \<Rightarrow>
             if cond rank lv (ns ! f) then walk ns i cond f (rank + span lv)
             else Some (Inr (a, rank)))
      else Some (Inl IndexOutOfRange))"

declare walk.simps [code]

text \<open>The order of the list: by score, then by member.\<close>

definition before :: "real \<Rightarrow> string \<Rightarrow> int \<Rightarrow> Level \<Rightarrow> node \<Rightarrow> bool" where
  "before score member rank lv f \<longleftrightarrow>
     Score f < score \<or> (Score f = score \<and> Member f < member)"

definition before_eq :: "real \<Rightarrow> string \<Rightarrow> int \<Rightarrow> Level \<Rightarrow> node \<Rightarrow> bool" where
  "before_eq score member rank lv f \<longleftrightarrow>
     Score f < score \<or> (Score f = score \<and> Member f \<le> member)"

text \<open>
  The outer loop of \<open>insert\<close>, \<open>for i := skiplist.level-1; i >= 0; i--\<close>, with
  \<open>Suc i\<close> levels still to visit; \<open>tp\<close> is \<open>skiplist.level-1\<close>. \<open>update\<close> and
  \<open>rank\<close> are slices of length \<open>maxLevel\<close>.
\<close>

fun insert_search ::
  "node list \<Rightarrow> (int \<Rightarrow> Level \<Rightarrow> node \<Rightarrow> bool) \<Rightarrow> nat \<Rightarrow> nat \<Rightarrow> nat \<Rightarrow> nat option list \<Rightarrow> int list
     \<Rightarrow> (nat \<times> nat option list \<times> int list) res"
where
  "insert_search ns cond tp 0 a update rank = ok (a, update, rank)"
| "insert_search ns cond tp (Suc i) a update rank =
     (if i < length rank \<and> i < length update then
        and_then (walk ns i cond a (if i = tp then 0 else rank ! (i + 1)))
          (\<lambda>(a', r). insert_search ns cond tp i a' (update[i := Some a']) (rank[i := r]))
      else fail IndexOutOfRange)"

text \<open>
  \<open>for i := skiplist.level; i < level; i++\<close>: the levels that the new node adds to the
  list, \<open>n\<close> of them from \<open>i\<close> on.
\<close>

fun raise_loop ::
  "nat \<Rightarrow> nat \<Rightarrow> skiplist \<Rightarrow> nat option list \<Rightarrow> int list
     \<Rightarrow> (skiplist \<times> nat option list \<times> int list) res"
where
  "raise_loop 0 i sl update rank = ok (sl, update, rank)"
| "raise_loop (Suc n) i sl update rank =
     (if i < length rank \<and> i < length update then
        and_then (get_level (nodes sl) (Some (header sl)) i)
          (\<lambda>lv. raise_loop n (Suc i)
                  (sl\<lparr>nodes := set_level (nodes sl) (header sl) i (lv\<lparr>span := sl_length sl\<rparr>)\<rparr>)
                  (update[i := Some (header sl)]) (rank[i := 0]))
      else fail IndexOutOfRange)"

text \<open>\<open>for i := int16(0); i < level; i++\<close>: the new node \<open>new\<close> is linked in.\<close>

fun link_loop ::
  "nat \<Rightarrow> nat \<Rightarrow> node list \<Rightarrow> nat \<Rightarrow> nat option list \<Rightarrow> int list \<Rightarrow> node list res"
where
  "link_loop 0 i ns new update rank = ok ns"
| "link_loop (Suc n) i ns new update rank =
     (if i < length rank \<and> i < length update then
        and_then (get_level ns (Some new) i) (\<lambda>lvn.
        and_then (get_level ns (update ! i) i) (\<lambda>lvu.
          let ns = set_level ns new i
                     \<lparr>forward = forward lvu, span = span lvu - (rank ! 0 - rank ! i)\<rparr>;
              ns = set_level ns (the (update ! i)) i
                     \<lparr>forward = Some new, span = rank ! 0 + 1 - rank ! i\<rparr>
          in link_loop n (Suc i) ns new update rank))
      else fail IndexOutOfRange)"

text \<open>\<open>for i := level; i < skiplist.level; i++ { update[i].level[i].span++ }\<close>\<close>

fun bump_loop :: "nat \<Rightarrow> nat \<Rightarrow> node list \<Rightarrow> nat option list \<Rightarrow> node list res" where
  "bump_loop 0 i ns update = ok ns"
| "bump_loop (Suc n) i ns update =
     (if i < length update then
        and_then (get_level ns (update ! i) i) (\<lambda>lvu.
          bump_loop n (Suc i) (set_level ns (the (update ! i)) i (lvu\<lparr>span := span lvu + 1\<rparr>))
            update)
      else fail IndexOutOfRange)"

text \<open>
  \<open>insert\<close> (here \<open>sl_insert\<close>), with the value \<open>u\<close> that \<open>rand.Uint64()\<close> returns in \<open>randomLevel\<close>.
  It returns the list and the pointer to the new node.
\<close>

definition sl_insert :: "skiplist \<Rightarrow> 64 word \<Rightarrow> string \<Rightarrow> real \<Rightarrow> (skiplist \<times> nat) res" where
  "sl_insert sl u member score =
     and_then (insert_search (nodes sl) (before score member) (sl_level sl - 1) (sl_level sl)
                 (header sl) (replicate maxLevel None) (replicate maxLevel 0))
       (\<lambda>(a, update, rank).
     let lvl = nat (sint (randomLevel u)) in
     and_then (if lvl > sl_level sl
               then and_then (raise_loop (lvl - sl_level sl) (sl_level sl) sl update rank)
                      (\<lambda>(sl, update, rank). ok (sl\<lparr>sl_level := lvl\<rparr>, update, rank))
               else ok (sl, update, rank))
       (\<lambda>(sl, update, rank).
     let new = length (nodes sl);
         ns = nodes sl @ [makeNode lvl score member] in
     and_then (link_loop lvl 0 ns new update rank) (\<lambda>ns.
     and_then (bump_loop (sl_level sl - lvl) lvl ns update) (\<lambda>ns.
     let ns = ns[new := (ns ! new)\<lparr>backward :=
                  (if update ! 0 = Some (header sl) then None else update ! 0)\<rparr>] in
     and_then (get_level ns (Some new) 0) (\<lambda>lv0.
     let sl = (case forward lv0 of
                 Some f \<Rightarrow> sl\<lparr>nodes := ns[f := (ns ! f)\<lparr>backward := Some new\<rparr>]\<rparr>
               | None \<Rightarrow> sl\<lparr>nodes := ns, tail := Some new\<rparr>)
     in ok (sl\<lparr>sl_length := sl_length sl + 1\<rparr>, new))))))"

text \<open>
  \<open>removeNode\<close>. The first loop, \<open>for i := int16(0); i < skiplist.level; i++\<close>:
\<close>

fun unlink_loop :: "nat \<Rightarrow> nat \<Rightarrow> node list \<Rightarrow> nat \<Rightarrow> nat option list \<Rightarrow> node list res" where
  "unlink_loop 0 i ns a update = ok ns"
| "unlink_loop (Suc n) i ns a update =
     (if i < length update then
        and_then (get_level ns (update ! i) i) (\<lambda>lvu.
          if forward lvu = Some a then
            and_then (get_level ns (Some a) i) (\<lambda>lvn.
              unlink_loop n (Suc i)
                (set_level ns (the (update ! i)) i
                   \<lparr>forward = forward lvn, span = span lvu + (span lvn - 1)\<rparr>) a update)
          else
            unlink_loop n (Suc i)
              (set_level ns (the (update ! i)) i (lvu\<lparr>span := span lvu - 1\<rparr>)) a update)
      else fail IndexOutOfRange)"

text \<open>
  \<open>for skiplist.level > 1 && skiplist.header.level[skiplist.level-1].forward == nil\<close>,
  on the level \<open>Suc k\<close>; the result is the level at which the loop stops.
\<close>

fun lower_level :: "node list \<Rightarrow> nat \<Rightarrow> nat \<Rightarrow> nat res" where
  "lower_level ns h 0 = ok 0"
| "lower_level ns h (Suc k) =
     (if Suc k > 1 then
        and_then (get_level ns (Some h) k) (\<lambda>lv.
          if forward lv = None then lower_level ns h k else ok (Suc k))
      else ok (Suc k))"

definition removeNode :: "skiplist \<Rightarrow> nat \<Rightarrow> nat option list \<Rightarrow> skiplist res" where
  "removeNode sl a update =
     and_then (unlink_loop (sl_level sl) 0 (nodes sl) a update) (\<lambda>ns.
     and_then (get_level ns (Some a) 0) (\<lambda>lv0.
     let sl = (case forward lv0 of
                 Some f \<Rightarrow> sl\<lparr>nodes := ns[f := (ns ! f)\<lparr>backward := backward (ns ! a)\<rparr>]\<rparr>
               | None \<Rightarrow> sl\<lparr>nodes := ns, tail := backward (ns ! a)\<rparr>) in
     and_then (lower_level (nodes sl) (header sl) (sl_level sl)) (\<lambda>lvl.
       ok (sl\<lparr>sl_level := lvl, sl_length := sl_length sl - 1\<rparr>))))"

text \<open>
  The outer loop of \<open>remove\<close> (here \<open>sl_remove\<close>), which keeps no ranks.
\<close>

fun remove_search ::
  "node list \<Rightarrow> (int \<Rightarrow> Level \<Rightarrow> node \<Rightarrow> bool) \<Rightarrow> nat \<Rightarrow> nat \<Rightarrow> nat option list
     \<Rightarrow> (nat \<times> nat option list) res"
where
  "remove_search ns cond 0 a update = ok (a, update)"
| "remove_search ns cond (Suc i) a update =
     (if i < length update then
        and_then (walk ns i cond a 0)
          (\<lambda>(a', r). remove_search ns cond i a' (update[i := Some a']))
      else fail IndexOutOfRange)"

definition sl_remove :: "skiplist \<Rightarrow> string \<Rightarrow> real \<Rightarrow> (skiplist \<times> bool) res" where
  "sl_remove sl member score =
     and_then (remove_search (nodes sl) (before score member) (sl_level sl) (header sl)
                 (replicate maxLevel None))
       (\<lambda>(a, update).
     and_then (get_level (nodes sl) (Some a) 0) (\<lambda>lv0.
       case forward lv0 of
         None \<Rightarrow> ok (sl, False)
       | Some f \<Rightarrow>
           if Score (nodes sl ! f) = score \<and> Member (nodes sl ! f) = member
           then and_then (removeNode sl f update) (\<lambda>sl. ok (sl, True))
           else ok (sl, False)))"

text \<open>The outer loop of \<open>getRank\<close>, with one rank that runs through the levels.\<close>

fun rank_search ::
  "node list \<Rightarrow> (int \<Rightarrow> Level \<Rightarrow> node \<Rightarrow> bool) \<Rightarrow> nat \<Rightarrow> nat \<Rightarrow> int \<Rightarrow> (nat \<times> int) res"
where
  "rank_search ns cond 0 a rank = ok (a, rank)"
| "rank_search ns cond (Suc i) a rank =
     and_then (walk ns i cond a rank) (\<lambda>(a', r). rank_search ns cond i a' r)"

definition getRank :: "skiplist \<Rightarrow> string \<Rightarrow> real \<Rightarrow> int res" where
  "getRank sl member score =
     and_then (rank_search (nodes sl) (before_eq score member) (sl_level sl) (header sl) 0)
       (\<lambda>(a, rank). if Member (nodes sl ! a) = member then ok rank else ok 0)"

text \<open>
  \<open>RemoveRangeByRank\<close>. The search keeps one rank and fills \<open>update\<close>; the second
  loop, \<open>for node != nil && rank < stop\<close>, runs at most \<open>stop - rank\<close> times.
\<close>

fun range_search ::
  "node list \<Rightarrow> (int \<Rightarrow> Level \<Rightarrow> node \<Rightarrow> bool) \<Rightarrow> nat \<Rightarrow> nat \<Rightarrow> int \<Rightarrow> nat option list
     \<Rightarrow> (nat \<times> int \<times> nat option list) res"
where
  "range_search ns cond 0 a rank update = ok (a, rank, update)"
| "range_search ns cond (Suc i) a rank update =
     (if i < length update then
        and_then (walk ns i cond a rank)
          (\<lambda>(a', r). range_search ns cond i a' r (update[i := Some a']))
      else fail IndexOutOfRange)"

fun remove_loop ::
  "nat \<Rightarrow> skiplist \<Rightarrow> nat option \<Rightarrow> nat option list \<Rightarrow> Element list
     \<Rightarrow> (skiplist \<times> Element list) res"
where
  "remove_loop 0 sl p update removed = ok (sl, removed)"
| "remove_loop (Suc k) sl p update removed =
     (case p of
        None \<Rightarrow> ok (sl, removed)
      | Some a \<Rightarrow>
          and_then (get_level (nodes sl) (Some a) 0) (\<lambda>lv0.
          let nextNode = forward lv0;
              removed = removed @ [element_of (nodes sl ! a)] in
          and_then (removeNode sl a update) (\<lambda>sl.
            remove_loop k sl nextNode update removed)))"

definition up_to :: "int \<Rightarrow> int \<Rightarrow> Level \<Rightarrow> node \<Rightarrow> bool" where
  "up_to start rank lv f \<longleftrightarrow> rank + span lv \<le> start"

definition RemoveRangeByRank :: "skiplist \<Rightarrow> int \<Rightarrow> int \<Rightarrow> (skiplist \<times> Element list) res" where
  "RemoveRangeByRank sl start stop =
     and_then (range_search (nodes sl) (up_to start) (sl_level sl) (header sl) 0
                 (replicate maxLevel None))
       (\<lambda>(a, rank, update). remove_loop (nat (stop - rank)) sl (Some a) update [])"

text \<open>
  \<open>hasInRange\<close>, for score borders: whether the list has an element between
  the two borders.
\<close>

definition hasInRange :: "skiplist \<Rightarrow> ScoreBorder \<Rightarrow> ScoreBorder \<Rightarrow> bool res" where
  "hasInRange sl mn mx =
     (if isIntersected mn mx then ok False
      else case tail sl of
        None \<Rightarrow> ok False
      | Some n \<Rightarrow>
          if \<not> less_than mn (element_of (nodes sl ! n)) then ok False
          else and_then (get_level (nodes sl) (Some (header sl)) 0) (\<lambda>lv.
            case forward lv of
              None \<Rightarrow> ok False
            | Some n \<Rightarrow>
                if \<not> greater mx (element_of (nodes sl ! n)) then ok False
                else ok True))"

text \<open>
  What the list holds: the elements met from the header along the forward pointers
  of level 0, in this order.
\<close>

partial_function (option) chain :: "node list \<Rightarrow> nat option \<Rightarrow> Element list \<Rightarrow> Element list option"
where
  "chain ns p acc =
     (case p of
        None \<Rightarrow> Some acc
      | Some a \<Rightarrow> chain ns (forward (level (ns ! a) ! 0)) (acc @ [element_of (ns ! a)]))"

declare chain.simps [code]

definition elements :: "skiplist \<Rightarrow> Element list option" where
  "elements sl = chain (nodes sl) (forward (level (nodes sl ! header sl) ! 0)) []"

text \<open>The elements that stand before a given one in the order of the list.\<close>

definition lower :: "Element \<Rightarrow> Element \<Rightarrow> bool" where
  "lower e' e \<longleftrightarrow> Score e' < Score e \<or> (Score e' = Score e \<and> Member e' < Member e)"

text \<open>The lists that \<open>insert\<close> and \<open>remove\<close> reach from a new one.\<close>

inductive reachable_sl :: "skiplist \<Rightarrow> bool" where
  new_sl: "reachable_sl makeSkiplist"
| insert_sl: "reachable_sl sl \<Longrightarrow> sl_insert sl u member score = ok (sl', a) \<Longrightarrow> reachable_sl sl'"
| remove_sl: "reachable_sl sl \<Longrightarrow> sl_remove sl member score = ok (sl', b) \<Longrightarrow> reachable_sl sl'"

text \<open>
  The notions that the proofs about the skip list use. \<open>height\<close> is the number of
  levels of a node, \<open>lvl\<close> its entry at a level, and a node is \<open>low\<close> at a level
  that it does not reach.
\<close>

definition height :: "node list \<Rightarrow> nat \<Rightarrow> nat" where
  "height ns a = length (level (ns ! a))"

definition lvl :: "node list \<Rightarrow> nat \<Rightarrow> nat \<Rightarrow> Level" where
  "lvl ns a i = level (ns ! a) ! i"

definition low :: "node list \<Rightarrow> nat \<Rightarrow> nat \<Rightarrow> bool" where
  "low ns i a \<longleftrightarrow> height ns a \<le> i"

text \<open>
  \<open>lk ns i x d R t\<close>: at level \<open>i\<close>, the forward pointers lead from the node \<open>x\<close>
  through the nodes of \<open>R\<close> that reach the level, and end in \<open>t\<close>; each span is the
  number of nodes to the target, where the first node of \<open>R\<close> is \<open>d\<close> steps from
  \<open>x\<close>. The span of a pointer that is \<open>nil\<close> is free.
\<close>

fun lk :: "node list \<Rightarrow> nat \<Rightarrow> nat \<Rightarrow> int \<Rightarrow> nat list \<Rightarrow> nat option \<Rightarrow> bool" where
  "lk ns i x d [] t \<longleftrightarrow>
     forward (lvl ns x i) = t \<and> (t \<noteq> None \<longrightarrow> span (lvl ns x i) = d)"
| "lk ns i x d (a # R) t \<longleftrightarrow>
     (if i < height ns a
      then forward (lvl ns x i) = Some a \<and> span (lvl ns x i) = d \<and> lk ns i a 1 R t
      else lk ns i x (d + 1) R t)"

definition key_le :: "node \<Rightarrow> node \<Rightarrow> bool" where
  "key_le n m \<longleftrightarrow> Score n < Score m \<or> (Score n = Score m \<and> Member n \<le> Member m)"

text \<open>
  The invariant of the skip list, for the list \<open>as\<close> of its nodes in the order of
  level 0: the nodes are different objects of the store, the header has
  \<open>maxLevel\<close> levels and every other node between one and \<open>skiplist.level\<close>,
  \<open>length\<close> counts the nodes, the nodes are in order, and at every level the
  forward pointers and spans are those of the nodes that reach the level.
\<close>

definition sl_inv :: "skiplist \<Rightarrow> nat list \<Rightarrow> bool" where
  "sl_inv sl as \<longleftrightarrow>
     distinct (header sl # as) \<and>
     (\<forall>a \<in> set (header sl # as). a < length (nodes sl)) \<and>
     height (nodes sl) (header sl) = maxLevel \<and>
     1 \<le> sl_level sl \<and> sl_level sl \<le> maxLevel \<and>
     (\<forall>a \<in> set as. 1 \<le> height (nodes sl) a \<and> height (nodes sl) a \<le> sl_level sl) \<and>
     sl_length sl = int (length as) \<and>
     sorted_wrt (\<lambda>a b. key_le (nodes sl ! a) (nodes sl ! b)) as \<and>
     (\<forall>i < maxLevel. lk (nodes sl) i (header sl) 1 as None)"

text \<open>
  What a search leaves in \<open>update[i]\<close> and \<open>rank[i]\<close>, for the nodes \<open>pre\<close> that
  stand before the place searched: the last node of the header and a front part of
  \<open>pre\<close>, with its position, such that no node of the rest reaches level \<open>i\<close>.
\<close>

definition pos_ok :: "node list \<Rightarrow> nat \<Rightarrow> nat list \<Rightarrow> nat \<Rightarrow> nat \<Rightarrow> int \<Rightarrow> bool" where
  "pos_ok ns h pre i u r \<longleftrightarrow>
     (\<exists>A B. pre = A @ B \<and> u = last (h # A) \<and> r = int (length A) \<and>
            (\<forall>b \<in> set B. low ns i b) \<and> (A \<noteq> [] \<longrightarrow> i < height ns (last A)))"

section \<open>The linked list: \<open>datastruct/list/linked.go\<close>\<close>

text \<open>
  The nodes of the doubly linked list live in a store: a list of nodes, a pointer is
  the index of its node and \<open>None\<close> is \<open>nil\<close>. A new node is put behind the
  others. Reading a field through \<open>nil\<close> panics.
\<close>

record 'a lnode =
  val :: 'a
  prev :: "nat option"
  nxt :: "nat option"

record 'a LinkedList =
  first :: "nat option"
  last_node :: "nat option"
  list_size :: int
  store :: "'a lnode list"

definition Add :: "'a LinkedList \<Rightarrow> 'a \<Rightarrow> 'a LinkedList" where
  "Add list v =
     (let n = length (store list) in
      case last_node list of
        None \<Rightarrow>
          list\<lparr>store := store list @ [\<lparr>val = v, prev = None, nxt = None\<rparr>],
               last_node := Some n, first := Some n, list_size := list_size list + 1\<rparr>
      | Some l \<Rightarrow>
          list\<lparr>store := (store list)[l := (store list ! l)\<lparr>nxt := Some n\<rparr>]
                          @ [\<lparr>val = v, prev = Some l, nxt = None\<rparr>],
               last_node := Some n, list_size := list_size list + 1\<rparr>)"

text \<open>The two loops of \<open>find\<close> (here \<open>find_node\<close>): a number of steps along \<open>next\<close>, or along \<open>prev\<close>.\<close>

fun step_next :: "'a lnode list \<Rightarrow> nat option \<Rightarrow> nat \<Rightarrow> panic + nat option" where
  "step_next st n 0 = Inr n"
| "step_next st n (Suc k) =
     (case n of None \<Rightarrow> Inl NilPointerDereference
      | Some a \<Rightarrow> step_next st (nxt (st ! a)) k)"

fun step_prev :: "'a lnode list \<Rightarrow> nat option \<Rightarrow> nat \<Rightarrow> panic + nat option" where
  "step_prev st n 0 = Inr n"
| "step_prev st n (Suc k) =
     (case n of None \<Rightarrow> Inl NilPointerDereference
      | Some a \<Rightarrow> step_prev st (prev (st ! a)) k)"

text \<open>
  \<open>find\<close>: the loop from the front runs for \<open>i = 0, \<dots>, index - 1\<close>, the loop from
  the back for \<open>i = size - 1, \<dots>, index + 1\<close>. The division of Go truncates; on a
  size that is not negative it is \<open>div\<close>.
\<close>

definition find_node :: "'a LinkedList \<Rightarrow> int \<Rightarrow> panic + nat option" where
  "find_node list index =
     (if index < (if 0 \<le> list_size list then list_size list div 2
                  else - ((- list_size list) div 2))
      then step_next (store list) (first list) (nat index)
      else step_prev (store list) (last_node list) (nat (list_size list - 1 - index)))"

definition Get :: "'a LinkedList \<Rightarrow> int \<Rightarrow> panic + 'a" where
  "Get list index =
     (if index < 0 \<or> index \<ge> list_size list then Inl (Explicit ''index out of boud'')
      else case find_node list index of
             Inl e \<Rightarrow> Inl e
           | Inr None \<Rightarrow> Inl NilPointerDereference
           | Inr (Some a) \<Rightarrow> Inr (val (store list ! a)))"

definition Set :: "'a LinkedList \<Rightarrow> int \<Rightarrow> 'a \<Rightarrow> panic + 'a LinkedList" where
  "Set list index v =
     (if index < 0 \<or> index > list_size list then Inl (Explicit ''index out of boud'')
      else case find_node list index of
             Inl e \<Rightarrow> Inl e
           | Inr None \<Rightarrow> Inl NilPointerDereference
           | Inr (Some a) \<Rightarrow>
               Inr (list\<lparr>store := (store list)[a := (store list ! a)\<lparr>val := v\<rparr>]\<rparr>))"

definition Len :: "'a LinkedList \<Rightarrow> int" where
  "Len list = list_size list"

definition MakeList :: "'a list \<Rightarrow> 'a LinkedList" where
  "MakeList vals =
     foldl Add \<lparr>first = None, last_node = None, list_size = 0, store = []\<rparr> vals"

section \<open>The append-only file: package \<open>aof\<close>\<close>

type_synonym CmdLine = "string list"

text \<open>
  The file of the persister: the bytes written so far and the number of \<open>Sync\<close>
  calls. What a \<open>Write\<close> does is up to the operating system; \<open>pending\<close> lists
  what it will do with the coming writes, one after the other: take the data whole, or
  take the first \<open>n\<close> bytes and return an error (a full disk, a closed
  descriptor). Once the list is used up, every write is taken whole.
\<close>

datatype outcome = Complete | Short nat

record File =
  contents :: string
  syncs :: nat
  pending :: "outcome list"

definition Write :: "File \<Rightarrow> string \<Rightarrow> File \<times> bool" where
  "Write f data =
     (case pending f of
        [] \<Rightarrow> (f\<lparr>contents := contents f @ data\<rparr>, False)
      | Complete # rest \<Rightarrow> (f\<lparr>contents := contents f @ data, pending := rest\<rparr>, False)
      | Short n # rest \<Rightarrow>
          (f\<lparr>contents := contents f @ take n data, pending := rest\<rparr>, True))"

text \<open>The next \<open>k\<close> writes to the file are taken whole.\<close>

definition writes_complete :: "nat \<Rightarrow> File \<Rightarrow> bool" where
  "writes_complete k f \<longleftrightarrow> set (take k (pending f)) \<subseteq> {Complete}"

record payload =
  cmdLine :: CmdLine
  dbIndex :: int

text \<open>
  Of the persister, the fields that \<open>writeAof\<close> reads or writes. A listener is a
  number; \<open>callbacks\<close> records every \<open>Callback\<close> made, with its argument, and
  \<open>warnings\<close> counts the calls of \<open>logger.Warn\<close>.
\<close>

record Persister =
  aofFile :: File
  aofFsync :: string
  currentDB :: int
  listeners :: "nat list"
  buffer :: "CmdLine list"
  callbacks :: "(nat \<times> CmdLine list) list"
  warnings :: nat

definition FsyncAlways :: string where
  "FsyncAlways = ''always''"

text \<open>\<open>strconv.Itoa\<close> of the Go standard library: the decimal digits, with a sign.\<close>

fun digits :: "nat \<Rightarrow> string" where
  "digits n =
     (if n < 10 then [char_of (48 + n)]
      else digits (n div 10) @ [char_of (48 + n mod 10)])"

definition Itoa :: "int \<Rightarrow> string" where
  "Itoa i = (if i < 0 then CHR ''-'' # digits (nat (- i)) else digits (nat i))"

text \<open>
  Modelled from the spec: \<open>utils.ToCmdLine\<close> is not among the sources. The spec
  speaks of the command \<open>SELECT <dbIndex>\<close>: the command line made of the given
  words, one argument each.
\<close>

definition ToCmdLine :: "string list \<Rightarrow> CmdLine" where
  "ToCmdLine cmd = cmd"

text \<open>
  \<open>writeAof\<close>. The serialisation \<open>protocol.MakeMultiBulkReply(c).ToBytes()\<close> is not
  among the sources; it is the parameter \<open>toBytes\<close>.
\<close>

definition notify :: "Persister \<Rightarrow> Persister" where
  "notify persister =
     persister\<lparr>callbacks := callbacks persister
                  @ map (\<lambda>listener. (listener, buffer persister)) (listeners persister)\<rparr>"

definition sync_if_always :: "Persister \<Rightarrow> Persister" where
  "sync_if_always persister =
     (if aofFsync persister = FsyncAlways
      then persister\<lparr>aofFile := (aofFile persister)\<lparr>syncs := Suc (syncs (aofFile persister))\<rparr>\<rparr>
      else persister)"

definition write_command :: "(CmdLine \<Rightarrow> string) \<Rightarrow> Persister \<Rightarrow> payload \<Rightarrow> Persister" where
  "write_command toBytes persister p =
     (let data = toBytes (cmdLine p);
          persister = persister\<lparr>buffer := buffer persister @ [cmdLine p]\<rparr>;
          (file, err) = Write (aofFile persister) data;
          persister = persister\<lparr>aofFile := file\<rparr>;
          persister = (if err then persister\<lparr>warnings := Suc (warnings persister)\<rparr>
                       else persister)
      in sync_if_always (notify persister))"

definition writeAof :: "(CmdLine \<Rightarrow> string) \<Rightarrow> Persister \<Rightarrow> payload \<Rightarrow> Persister" where
  "writeAof toBytes persister p =
     (let persister = persister\<lparr>buffer := []\<rparr> in
      if dbIndex p \<noteq> currentDB persister then
        (let selectCmd = ToCmdLine [''SELECT'', Itoa (dbIndex p)];
             persister = persister\<lparr>buffer := buffer persister @ [selectCmd]\<rparr>;
             data = toBytes selectCmd;
             (file, err) = Write (aofFile persister) data;
             persister = persister\<lparr>aofFile := file\<rparr>
         in if err then persister\<lparr>warnings := Suc (warnings persister)\<rparr>
            else write_command toBytes (persister\<lparr>currentDB := dbIndex p\<rparr>) p)
      else write_command toBytes persister p)"

text \<open>
  Modelled from the spec: the multi-bulk serialisation of a command line, which is
  not among the sources. It is used to instantiate \<open>toBytes\<close> in examples only.
\<close>

definition bulk :: "string \<Rightarrow> string" where
  "bulk arg = CHR ''$'' # digits (length arg) @ [CHR 0x0D, CHR 0x0A] @ arg @ [CHR 0x0D, CHR 0x0A]"

definition multiBulk :: "CmdLine \<Rightarrow> string" where
  "multiBulk args =
     CHR ''*'' # digits (length args) @ [CHR 0x0D, CHR 0x0A] @ concat (map bulk args)"

section \<open>The concurrent map: package \<open>dict\<close>\<close>

text \<open>
  A shard is a Go map from keys to values; its mutex has no part in what one call
  computes and is left out. The calls of the map are taken one at a time, each as a
  whole. \<open>count\<close> is an \<open>int32\<close>: \<open>atomic.AddInt32\<close> wraps around. \<open>fnv32\<close> and
  \<open>prime32\<close> of this package are, letter for letter, those of package \<open>lock\<close>
  above.
\<close>

text \<open>The field \<open>table\<close> of the source is \<open>shards\<close> here.\<close>

record 'v ConcurrentDict =
  shards :: "(string \<rightharpoonup> 'v) list"
  count :: "32 word"
  shardCount :: "64 word"

text \<open>
  \<open>computeCapacity\<close> works on an \<open>int\<close> of 64 bits; \<open>>>\<close> on a signed integer
  is the arithmetic shift.
\<close>

definition computeCapacity :: "64 word \<Rightarrow> 64 word" where
  "computeCapacity param =
     (if param \<le>s 16 then 16
      else let n = param - 1;
               n = n OR signed_drop_bit 1 n;
               n = n OR signed_drop_bit 2 n;
               n = n OR signed_drop_bit 4 n;
               n = n OR signed_drop_bit 8 n;
               n = n OR signed_drop_bit 16 n
           in if n <s 0 then 2147483647 else n + 1)"

text \<open>\<open>make([]*shard, n)\<close> panics on a negative length.\<close>

definition MakeConcurrent :: "64 word \<Rightarrow> panic + 'v ConcurrentDict" where
  "MakeConcurrent sc =
     (if sc = 1 then Inr \<lparr>shards = [Map.empty], count = 0, shardCount = sc\<rparr>
      else let sc = computeCapacity sc in
        if sc <s 0 then Inl (Explicit ''makeslice: len out of range'')
        else Inr \<lparr>shards = replicate (nat (sint sc)) Map.empty, count = 0, shardCount = sc\<rparr>)"

definition dict_spread :: "'v ConcurrentDict \<Rightarrow> string \<Rightarrow> 32 word" where
  "dict_spread dict key =
     (if length (shards dict) = 1 then 0
      else let hashCode = fnv32 key;
               tableSize = (of_nat (length (shards dict)) :: 32 word)
           in (tableSize - 1) AND hashCode)"

text \<open>\<open>getShard\<close>: \<open>dict.table[index]\<close> panics on an index outside the table.\<close>

definition getShard :: "'v ConcurrentDict \<Rightarrow> 32 word \<Rightarrow> panic + (string \<rightharpoonup> 'v)" where
  "getShard dict index =
     (if unat index < length (shards dict) then Inr (shards dict ! unat index)
      else Inl IndexOutOfRange)"

definition setShard :: "'v ConcurrentDict \<Rightarrow> 32 word \<Rightarrow> (string \<rightharpoonup> 'v) \<Rightarrow> 'v ConcurrentDict" where
  "setShard dict index s = dict\<lparr>shards := (shards dict)[unat index := s]\<rparr>"

definition DictLen :: "'v ConcurrentDict \<Rightarrow> int" where
  "DictLen dict = sint (count dict)"

definition addCount :: "'v ConcurrentDict \<Rightarrow> 'v ConcurrentDict" where
  "addCount dict = dict\<lparr>count := count dict + 1\<rparr>"

definition decreaseCount :: "'v ConcurrentDict \<Rightarrow> 'v ConcurrentDict" where
  "decreaseCount dict = dict\<lparr>count := count dict + (-1)\<rparr>"

text \<open>
  Each operation returns the map after the call and the result of the call.
  The variants \<open>WithLock\<close> have the same body without the mutex calls.
\<close>

definition Put :: "'v ConcurrentDict \<Rightarrow> string \<Rightarrow> 'v \<Rightarrow> panic + 'v ConcurrentDict \<times> int" where
  "Put dict key v =
     (let index = dict_spread dict key in
      case getShard dict index of
        Inl e \<Rightarrow> Inl e
      | Inr s \<Rightarrow>
          if s key \<noteq> None then Inr (setShard dict index (s(key \<mapsto> v)), 0)
          else Inr (addCount (setShard dict index (s(key \<mapsto> v))), 1))"

definition PutWithLock :: "'v ConcurrentDict \<Rightarrow> string \<Rightarrow> 'v \<Rightarrow> panic + 'v ConcurrentDict \<times> int" where
  "PutWithLock dict key v =
     (let index = dict_spread dict key in
      case getShard dict index of
        Inl e \<Rightarrow> Inl e
      | Inr s \<Rightarrow>
          if s key \<noteq> None then Inr (setShard dict index (s(key \<mapsto> v)), 0)
          else Inr (addCount (setShard dict index (s(key \<mapsto> v))), 1))"

definition PutIfAbsent :: "'v ConcurrentDict \<Rightarrow> string \<Rightarrow> 'v \<Rightarrow> panic + 'v ConcurrentDict \<times> int" where
  "PutIfAbsent dict key v =
     (let index = dict_spread dict key in
      case getShard dict index of
        Inl e \<Rightarrow> Inl e
      | Inr s \<Rightarrow>
          if s key \<noteq> None then Inr (dict, 0)
          else Inr (addCount (setShard dict index (s(key \<mapsto> v))), 1))"

definition PutIfAbsentWithLock :: "'v ConcurrentDict \<Rightarrow> string \<Rightarrow> 'v \<Rightarrow> panic + 'v ConcurrentDict \<times> int" where
  "PutIfAbsentWithLock dict key v =
     (let index = dict_spread dict key in
      case getShard dict index of
        Inl e \<Rightarrow> Inl e
      | Inr s \<Rightarrow>
          if s key \<noteq> None then Inr (dict, 0)
          else Inr (addCount (setShard dict index (s(key \<mapsto> v))), 1))"

definition PutIfExists :: "'v ConcurrentDict \<Rightarrow> string \<Rightarrow> 'v \<Rightarrow> panic + 'v ConcurrentDict \<times> int" where
  "PutIfExists dict key v =
     (let index = dict_spread dict key in
      case getShard dict index of
        Inl e \<Rightarrow> Inl e
      | Inr s \<Rightarrow>
          if s key \<noteq> None then Inr (setShard dict index (s(key \<mapsto> v)), 1)
          else Inr (dict, 0))"

definition PutIfExistsWithLock :: "'v ConcurrentDict \<Rightarrow> string \<Rightarrow> 'v \<Rightarrow> panic + 'v ConcurrentDict \<times> int" where
  "PutIfExistsWithLock dict key v =
     (let index = dict_spread dict key in
      case getShard dict index of
        Inl e \<Rightarrow> Inl e
      | Inr s \<Rightarrow>
          if s key \<noteq> None then Inr (setShard dict index (s(key \<mapsto> v)), 1)
          else Inr (dict, 0))"

definition Remove :: "'v ConcurrentDict \<Rightarrow> string \<Rightarrow> panic + 'v ConcurrentDict \<times> 'v option \<times> int" where
  "Remove dict key =
     (let index = dict_spread dict key in
      case getShard dict index of
        Inl e \<Rightarrow> Inl e
      | Inr s \<Rightarrow>
          (case s key of
             Some v \<Rightarrow> Inr (decreaseCount (setShard dict index (s(key := None))), Some v, 1)
           | None \<Rightarrow> Inr (dict, None, 0)))"

definition RemoveWithLock :: "'v ConcurrentDict \<Rightarrow> string \<Rightarrow> panic + 'v ConcurrentDict \<times> 'v option \<times> int" where
  "RemoveWithLock dict key =
     (let index = dict_spread dict key in
      case getShard dict index of
        Inl e \<Rightarrow> Inl e
      | Inr s \<Rightarrow>
          (case s key of
             Some v \<Rightarrow> Inr (decreaseCount (setShard dict index (s(key := None))), Some v, 1)
           | None \<Rightarrow> Inr (dict, None, 0)))"

definition Clear :: "'v ConcurrentDict \<Rightarrow> panic + 'v ConcurrentDict" where
  "Clear dict = MakeConcurrent (shardCount dict)"

text \<open>The number of keys stored across all shards.\<close>

definition stored_keys :: "'v ConcurrentDict \<Rightarrow> nat" where
  "stored_keys dict = sum_list (map (\<lambda>s. card (dom s)) (shards dict))"

text \<open>
  The states that a sequence of calls reaches from a new map. A call that panics
  reaches no state.
\<close>

inductive reachable :: "'v ConcurrentDict \<Rightarrow> bool" where
  r_Make: "MakeConcurrent sc = Inr dict \<Longrightarrow> reachable dict"
| r_Put: "reachable dict \<Longrightarrow> Put dict key v = Inr (dict', r) \<Longrightarrow> reachable dict'"
| r_PutWithLock:
    "reachable dict \<Longrightarrow> PutWithLock dict key v = Inr (dict', r) \<Longrightarrow> reachable dict'"
| r_PutIfAbsent:
    "reachable dict \<Longrightarrow> PutIfAbsent dict key v = Inr (dict', r) \<Longrightarrow> reachable dict'"
| r_PutIfAbsentWithLock:
    "reachable dict \<Longrightarrow> PutIfAbsentWithLock dict key v = Inr (dict', r) \<Longrightarrow> reachable dict'"
| r_PutIfExists:
    "reachable dict \<Longrightarrow> PutIfExists dict key v = Inr (dict', r) \<Longrightarrow> reachable dict'"
| r_PutIfExistsWithLock:
    "reachable dict \<Longrightarrow> PutIfExistsWithLock dict key v = Inr (dict', r) \<Longrightarrow> reachable dict'"
| r_Remove: "reachable dict \<Longrightarrow> Remove dict key = Inr (dict', old, r) \<Longrightarrow> reachable dict'"
| r_RemoveWithLock:
    "reachable dict \<Longrightarrow> RemoveWithLock dict key = Inr (dict', old, r) \<Longrightarrow> reachable dict'"
| r_Clear: "reachable dict \<Longrightarrow> Clear dict = Inr dict' \<Longrightarrow> reachable dict'"

text \<open>
  The invariant of the counter: it is the number of stored keys, as an \<open>int32\<close>,
  and every shard holds finitely many keys.
\<close>

definition dict_inv :: "'v ConcurrentDict \<Rightarrow> bool" where
  "dict_inv dict \<longleftrightarrow>
     count dict = of_nat (stored_keys dict) \<and> (\<forall>s \<in> set (shards dict). finite (dom s))"

section \<open>Properties of the cluster routing\<close>

lemma Index_ge: "-1 \<le> Index s c"
  by (induction s) (auto simp: Let_def)

lemma Index_eq_minus_one: "Index s c = -1 \<longleftrightarrow> c \<notin> set s"
proof (induction s)
  case Nil
  show ?case by simp
next
  case (Cons x xs)
  have "-1 \<le> Index xs c" by (rule Index_ge)
  with Cons show ?case by (auto simp: Let_def)
qed

lemma Index_append_notin:
  "c \<notin> set xs \<Longrightarrow> Index (xs @ c # ys) c = int (length xs)"
  by (induction xs) (auto simp: Let_def)

lemma GetPartitionKey_wrap:
  assumes "pk \<noteq> []" and "CHR ''}'' \<notin> set pk"
  shows "GetPartitionKey (''prefix-{'' @ pk @ ''}-suffix'') = Inr pk"
proof -
  let ?key = "''prefix-{'' @ pk @ ''}-suffix''"
  have beg: "Index ?key CHR ''{'' = 7"
    using Index_append_notin [of "CHR ''{''" "''prefix-''" "pk @ ''}-suffix''"] by simp
  have "Index ((''prefix-{'' @ pk) @ CHR ''}'' # ''-suffix'') CHR ''}'' =
        int (length (''prefix-{'' @ pk))"
    using assms(2) by (intro Index_append_notin) simp
  then have e: "Index ?key CHR ''}'' = 8 + int (length pk)"
    by simp
  have ne: "int (length pk) \<noteq> 0" using assms(1) by simp
  show ?thesis
    unfolding GetPartitionKey_def beg e Let_def slice_def using ne by simp
qed

text \<open>
  Claim C1. \<open>GetSlot\<close> is to return the checksum of the partition key modulo 1024 for
  every key, also for a key whose first \<open>}\<close> stands before its first \<open>{\<close>.
  \<open>GetPartitionKey\<close> looks for the first \<open>}\<close> of the whole key, not for the
  first one behind the \<open>{\<close>. On the key \<open>a}{b}\<close> the opening brace is at index 2
  and the closing brace found is at index 1, so the slice \<open>key[3:1]\<close> panics, where
  the claim gives the partition key \<open>b\<close>.
\<close>

theorem GetSlot_panics_on_close_before_open:
  "GetPartitionKey ''a}{b}'' = Inl SliceBoundsOutOfRange \<and>
   GetSlot ''a}{b}'' = Inl SliceBoundsOutOfRange"
  by (simp add: GetSlot_def GetPartitionKey_def slice_def)

text \<open>
  Claim C6, as stated: for every key with a non-empty partition key, the key and
  \<open>prefix-{\<close> partition key \<open>}-suffix\<close> have the same slot. The key \<open>a}b\<close> has no
  \<open>{\<close>, so it is its own partition key; wrapped, the hashtag ends at the first
  \<open>}\<close> and the partition key of the wrapped key is \<open>a\<close>. The slots are 970 and 579.
\<close>

theorem GetSlot_hashtag_wrap_counterexample:
  "GetPartitionKey ''a}b'' = Inr ''a}b'' \<and> ''a}b'' \<noteq> [] \<and>
   GetSlot ''a}b'' \<noteq> GetSlot (''prefix-{'' @ ''a}b'' @ ''}-suffix'')"
  by code_simp

text \<open>
  Claim C6, amended: for every key \<open>k\<close> on which \<open>GetPartitionKey\<close> returns a
  non-empty partition key that contains no \<open>}\<close>, the key \<open>k\<close> and
  \<open>prefix-{\<close> partition key \<open>}-suffix\<close> have the same slot.
\<close>

theorem GetSlot_hashtag_wrap:
  assumes "GetPartitionKey k = Inr pk" and "pk \<noteq> []" and "CHR ''}'' \<notin> set pk"
  shows "GetSlot (''prefix-{'' @ pk @ ''}-suffix'') = GetSlot k"
  unfolding GetSlot_def GetPartitionKey_wrap [OF assms(2,3)] assms(1) by simp

theorem GetSlot_hashtag_wrap_witness:
  "GetPartitionKey ''user{42}x'' = Inr ''42'' \<and> ''42'' \<noteq> [] \<and> CHR ''}'' \<notin> set ''42'' \<and>
   GetSlot (''prefix-{'' @ ''42'' @ ''}-suffix'') = GetSlot ''user{42}x''"
proof -
  have a: "GetPartitionKey ''user{42}x'' = Inr ''42''"
    by (simp add: GetPartitionKey_def slice_def)
  have b: "''42'' \<noteq> []" by simp
  have c: "CHR ''}'' \<notin> set ''42''" by simp
  show ?thesis using a b c GetSlot_hashtag_wrap [OF a b c] by simp
qed

section \<open>Properties of the lock table\<close>

lemma toLockIndices_length:
  "length (toLockIndices locks keys reverse) = 2 * length (indexMap_of locks keys)"
  by (simp add: toLockIndices_def Let_def)

text \<open>
  Claim C2. \<open>toLockIndices(keys, false)\<close> is to return the distinct shard indices of
  the keys in ascending order and nothing else, and \<open>RWLocks\<close> is to acquire each of
  them once. In a table of 16 mutexes the keys \<open>a\<close> and \<open>b\<close> fall on the shards 14
  and 13. \<open>toLockIndices\<close> returns two zeros before them (the slice is made with a
  length, not with a capacity), and \<open>RWLocks\<close> takes the read lock of shard 0 twice,
  a shard that no key touches.
\<close>

theorem toLockIndices_leading_zeros:
  "toLockIndices (Make 16) [''a'', ''b''] False = [0, 0, 13, 14] \<and>
   RWLocks (Make 16) [''a''] [''b''] = Inr [RLock 0, RLock 0, RLock 13, WLock 14]"
  by code_simp

section \<open>Properties of the score borders\<close>

text \<open>
  Claim C5. \<open>isIntersected\<close> is to compare the two borders as bounds, with the
  infinity kinds as minus and plus infinity: true if and only if \<open>min > max\<close>, or
  \<open>min == max\<close> and a side is exclusive. It compares the \<open>Value\<close> fields and
  never reads \<open>Inf\<close>, where \<open>greater\<close> and \<open>less\<close> read it first. For the lower
  border 5 and the upper border plus infinity, whose \<open>Value\<close> is 0, it returns
  true, and \<open>hasInRange\<close> reports that a list holding the score 7 has no element
  between 5 and plus infinity, although both borders accept that element.
\<close>

theorem isIntersected_ignores_infinity:
  "isIntersected \<lparr>Inf = 0, Value = 5, Exclude = False\<rparr> scorePositiveInfBorder \<and>
   \<not> spec_isIntersected \<lparr>Inf = 0, Value = 5, Exclude = False\<rparr> scorePositiveInfBorder \<and>
   less_than \<lparr>Inf = 0, Value = 5, Exclude = False\<rparr> \<lparr>Member = ''a'', Score = 7\<rparr> \<and>
   greater scorePositiveInfBorder \<lparr>Member = ''a'', Score = 7\<rparr> \<and>
   and_then (sl_insert makeSkiplist 65534 ''a'' 7) (\<lambda>(sl, a).
     and_then (hasInRange sl \<lparr>Inf = 0, Value = 5, Exclude = False\<rparr> scorePositiveInfBorder)
       (\<lambda>b. ok (elements sl, b)))
   = ok (Some [\<lparr>Member = ''a'', Score = 7\<rparr>], False)"
  by code_simp

section \<open>Properties of the node level\<close>

lemma Len64_loop_floorlog: "unat x < 2 ^ n \<Longrightarrow> Len64_loop n x = floorlog 2 (unat x)"
proof (induction n arbitrary: x)
  case 0
  then have "unat x = 0" by simp
  then show ?case by (simp add: floorlog_def)
next
  case (Suc n)
  show ?case
  proof (cases "x = 0")
    case True
    then show ?thesis by (simp add: floorlog_def)
  next
    case False
    then have pos: "0 < unat x" by (simp add: unat_gt_0)
    have d: "unat (drop_bit 1 x) = unat x div 2"
      by (simp add: drop_bit_eq_div unat_div)
    from Suc.prems have "unat x div 2 < 2 ^ n" by simp
    with d have "Len64_loop n (drop_bit 1 x) = floorlog 2 (unat x div 2)"
      using Suc.IH [of "drop_bit 1 x"] by simp
    moreover have "floorlog 2 (unat x) = floorlog 2 (unat x div 2) + 1"
      using pos by (subst compute_floorlog) simp
    ultimately show ?thesis using False by simp
  qed
qed

lemma Len64_floorlog: "Len64 x = int (floorlog 2 (unat x))"
proof -
  have "unat x < 2 ^ 64" using unsigned_less [of x] by simp
  then show ?thesis by (simp add: Len64_def Len64_loop_floorlog)
qed

lemma randomLevel_k:
  fixes u :: "64 word"
  shows "unat (u mod (push_bit maxLevel 1 - 1) + 1) = unat u mod (2 ^ maxLevel - 1) + 1"
proof -
  have t: "unat (push_bit maxLevel (1 :: 64 word) - 1) = 65535"
    by (simp add: maxLevel_def)
  have "unat (u mod (push_bit maxLevel 1 - 1)) = unat u mod 65535"
    by (simp only: unat_mod t)
  moreover have "unat u mod 65535 < 65535" by simp
  ultimately have "unat (u mod (push_bit maxLevel 1 - 1) + 1) = unat u mod 65535 + 1"
    by (simp only: unat_word_ariths) simp
  then show ?thesis by (simp add: maxLevel_def)
qed

text \<open>
  Claim C7, as stated: \<open>randomLevel\<close> returns
  \<open>maxLevel - floor(log2(u mod (2^maxLevel - 1) + 1)) + 1\<close>. For \<open>u = 0\<close> the
  formula gives 17 and \<open>randomLevel\<close> returns 16: \<open>bits.Len64\<close> is the floor of
  the logarithm plus one already.
\<close>

theorem randomLevel_spec_formula_counterexample:
  "sint (randomLevel 0) \<noteq>
     int maxLevel - \<lfloor>log 2 (real (unat (0 :: 64 word) mod (2 ^ maxLevel - 1) + 1))\<rfloor> + 1"
proof -
  have "randomLevel 0 = 16" by code_simp
  then show ?thesis by (simp add: maxLevel_def)
qed

text \<open>
  Claim C7, amended: for every drawn value \<open>u\<close>, \<open>randomLevel\<close> returns
  \<open>maxLevel - floor(log2(u mod (2^maxLevel - 1) + 1))\<close>, with \<open>maxLevel = 16\<close>.
\<close>

theorem randomLevel_formula:
  "sint (randomLevel u) = int maxLevel - \<lfloor>log 2 (real (unat u mod (2 ^ maxLevel - 1) + 1))\<rfloor>"
proof -
  define a where "a = unat u mod (2 ^ maxLevel - 1) + 1"
  have a_pos: "0 < a" and a_lt: "a < 2 ^ 16"
    by (simp_all add: a_def maxLevel_def) 
  have fl: "floorlog 2 a = nat \<lfloor>log 2 (real a)\<rfloor> + 1"
    using a_pos by (simp add: floorlog_def)
  have le: "floorlog 2 a \<le> 16"
    using a_lt by (intro floorlog_leI) simp_all
  have nonneg: "0 \<le> \<lfloor>log 2 (real a)\<rfloor>"
    using a_pos by simp
  have len: "Len64 (u mod (push_bit maxLevel 1 - 1) + 1) = \<lfloor>log 2 (real a)\<rfloor> + 1"
  proof -
    have "Len64 (u mod (push_bit maxLevel 1 - 1) + 1) = int (floorlog 2 a)"
      unfolding Len64_floorlog randomLevel_k a_def ..
    with fl nonneg show ?thesis by simp
  qed
  have bound: "\<lfloor>log 2 (real a)\<rfloor> \<le> 15"
    using fl le nonneg by linarith
  have "randomLevel u = word_of_int (16 - \<lfloor>log 2 (real a)\<rfloor>)"
    unfolding randomLevel_def Let_def len by (simp add: maxLevel_def)
  moreover have "sint (word_of_int (16 - \<lfloor>log 2 (real a)\<rfloor>) :: 16 word) = 16 - \<lfloor>log 2 (real a)\<rfloor>"
  proof -
    have sw: "sint (word_of_int z :: 16 word) = z" if "- 32768 \<le> z" and "z < 32768" for z
      using that by (simp add: sint_sbintrunc' signed_take_bit_int_eq_self)
    show ?thesis
      by (rule sw) (use nonneg bound in linarith)+
  qed
  ultimately show ?thesis by (simp add: a_def maxLevel_def)
qed

section \<open>Properties of the skip list\<close>

text \<open>
  Claim C4. \<open>RemoveRangeByRank(start, stop)\<close> is to remove exactly the nodes of the
  ranks from \<open>start\<close> up to \<open>stop\<close>, and nothing when \<open>start\<close> is beyond
  the list. Its search runs on while \<open>rank + span <= start\<close>, so it stops on the
  node of rank \<open>start\<close> and not on the node before it, and \<open>update\<close> holds that
  node where \<open>removeNode\<close> needs its predecessors. On the list of \<open>a\<close> and
  \<open>b\<close>, \<open>RemoveRangeByRank(1, 2)\<close> returns \<open>a\<close> and lowers \<open>length\<close>
  to 1, but the header still points to \<open>a\<close>: the list holds \<open>a\<close> and \<open>b\<close> as
  before. \<open>RemoveRangeByRank(3, 4)\<close>, beyond the list, returns \<open>b\<close> and
  lowers \<open>length\<close>.
\<close>

theorem RemoveRangeByRank_leaves_first_node_linked:
  "and_then (sl_insert makeSkiplist 65534 ''a'' 1) (\<lambda>(sl, a).
   and_then (sl_insert sl 65534 ''b'' 2) (\<lambda>(sl, b).
   and_then (RemoveRangeByRank sl 1 2) (\<lambda>(sl', removed).
     ok (elements sl, removed, elements sl', sl_length sl'))))
   = ok (Some [\<lparr>Member = ''a'', Score = 1\<rparr>, \<lparr>Member = ''b'', Score = 2\<rparr>],
         [\<lparr>Member = ''a'', Score = 1\<rparr>],
         Some [\<lparr>Member = ''a'', Score = 1\<rparr>, \<lparr>Member = ''b'', Score = 2\<rparr>], 1)
   \<and>
   and_then (sl_insert makeSkiplist 65534 ''a'' 1) (\<lambda>(sl, a).
   and_then (sl_insert sl 65534 ''b'' 2) (\<lambda>(sl, b).
   and_then (RemoveRangeByRank sl 3 4) (\<lambda>(sl', removed).
     ok (removed, elements sl', sl_length sl'))))
   = ok ([\<lparr>Member = ''b'', Score = 2\<rparr>],
         Some [\<lparr>Member = ''a'', Score = 1\<rparr>, \<lparr>Member = ''b'', Score = 2\<rparr>], 1)"
  by code_simp

section \<open>Properties of the linked list\<close>

lemma Get_out_of_range:
  "index < 0 \<or> Len list \<le> index \<Longrightarrow> Get list index = Inl (Explicit ''index out of boud'')"
  by (auto simp: Get_def Len_def)

text \<open>
  Claim C8. Every operation that takes an index is to panic on an index outside the
  list and to leave the list as it is; \<open>Set(i, v)\<close> is to panic for every
  \<open>i \<ge> Len()\<close>. The guard of \<open>Set\<close> is \<open>index > list.size\<close>, where \<open>Get\<close> and
  \<open>Remove\<close> have \<open>index >= list.size\<close>. On the list of \<open>x\<close> and \<open>y\<close>,
  \<open>Set(2, z)\<close> passes the guard, \<open>find(2)\<close> returns the last node, and the call
  returns with the last element overwritten.
\<close>

theorem Set_at_Len_overwrites_last:
  "Len (MakeList [''x'', ''y'']) = 2 \<and>
   (case Set (MakeList [''x'', ''y'']) 2 ''z'' of
      Inl e \<Rightarrow> False
    | Inr list \<Rightarrow> Get list 0 = Inr ''x'' \<and> Get list 1 = Inr ''z'' \<and> Len list = 2)"
  by (simp add: MakeList_def Add_def Set_def Get_def Len_def find_node_def)

section \<open>Properties of the append-only file\<close>

text \<open>
  Claim C9, as stated: for every payload, \<open>writeAof\<close> appends the serialisation of
  \<open>SELECT <dbIndex>\<close> and of the command line and sets \<open>currentDB\<close> when
  \<open>dbIndex\<close> differs from \<open>currentDB\<close>. When the write of the \<open>SELECT\<close> fails,
  \<open>writeAof\<close> logs the error and returns: here the file takes no byte of that
  write, nothing is appended and \<open>currentDB\<close> stays 0.
\<close>

theorem writeAof_failed_write_counterexample:
  "contents (aofFile (writeAof multiBulk
      \<lparr>aofFile = \<lparr>contents = ''x'', syncs = 0, pending = [Short 0]\<rparr>,
       aofFsync = ''always'', currentDB = 0, listeners = [1], buffer = [], callbacks = [],
       warnings = 0\<rparr>
      \<lparr>cmdLine = [''GET'', ''k''], dbIndex = 3\<rparr>)) = ''x'' \<and>
   ''x'' \<noteq> ''x'' @ multiBulk (ToCmdLine [''SELECT'', Itoa 3]) @ multiBulk [''GET'', ''k''] \<and>
   currentDB (writeAof multiBulk
      \<lparr>aofFile = \<lparr>contents = ''x'', syncs = 0, pending = [Short 0]\<rparr>,
       aofFsync = ''always'', currentDB = 0, listeners = [1], buffer = [], callbacks = [],
       warnings = 0\<rparr>
      \<lparr>cmdLine = [''GET'', ''k''], dbIndex = 3\<rparr>) = 0"
  by (simp add: writeAof_def write_command_def Write_def notify_def sync_if_always_def
      ToCmdLine_def multiBulk_def)

text \<open>
  Claim C9, amended: for every payload that \<open>writeAof\<close> processes and whose writes
  the file takes whole (two writes when \<open>dbIndex\<close> differs from \<open>currentDB\<close>,
  one otherwise): when \<open>dbIndex\<close> differs from \<open>currentDB\<close>, the bytes appended
  are the serialisation of \<open>SELECT <dbIndex>\<close> followed by the serialisation of the
  command line, and \<open>currentDB\<close> becomes \<open>dbIndex\<close>; otherwise the bytes appended
  are the serialisation of the command line and \<open>currentDB\<close> stays.
\<close>

lemma Write_complete:
  "writes_complete (Suc k) f \<Longrightarrow>
   fst (Write f data) = f\<lparr>contents := contents f @ data, pending := tl (pending f)\<rparr> \<and>
   \<not> snd (Write f data) \<and> writes_complete k (fst (Write f data))"
  by (cases "pending f") (auto simp: Write_def writes_complete_def split: outcome.splits)

theorem writeAof_appends:
  assumes "writes_complete (if dbIndex p \<noteq> currentDB persister then 2 else 1)
             (aofFile persister)"
  shows "if dbIndex p \<noteq> currentDB persister
         then contents (aofFile (writeAof toBytes persister p)) =
                contents (aofFile persister)
                @ toBytes (ToCmdLine [''SELECT'', Itoa (dbIndex p)]) @ toBytes (cmdLine p) \<and>
              currentDB (writeAof toBytes persister p) = dbIndex p
         else contents (aofFile (writeAof toBytes persister p)) =
                contents (aofFile persister) @ toBytes (cmdLine p) \<and>
              currentDB (writeAof toBytes persister p) = currentDB persister"
proof (cases "dbIndex p \<noteq> currentDB persister")
  case True
  let ?f = "aofFile persister"
  let ?sel = "toBytes (ToCmdLine [''SELECT'', Itoa (dbIndex p)])"
  from assms True have "writes_complete (Suc (Suc 0)) ?f" by (simp add: numeral_2_eq_2)
  from Write_complete [OF this, of ?sel]
  have 1: "fst (Write ?f ?sel) = ?f\<lparr>contents := contents ?f @ ?sel, pending := tl (pending ?f)\<rparr>"
    and 2: "\<not> snd (Write ?f ?sel)" and 3: "writes_complete (Suc 0) (fst (Write ?f ?sel))"
    by blast+
  from Write_complete [OF 3, of "toBytes (cmdLine p)"]
  have 4: "contents (fst (Write (fst (Write ?f ?sel)) (toBytes (cmdLine p)))) =
             contents ?f @ ?sel @ toBytes (cmdLine p)"
    and 5: "\<not> snd (Write (fst (Write ?f ?sel)) (toBytes (cmdLine p)))"
    by (auto simp: 1)
  show ?thesis
    using True 2 4 5
    by (simp add: writeAof_def write_command_def notify_def sync_if_always_def Let_def
        split_beta)
next
  case False
  let ?f = "aofFile persister"
  from assms False have "writes_complete (Suc 0) ?f" by simp
  from Write_complete [OF this, of "toBytes (cmdLine p)"]
  have "contents (fst (Write ?f (toBytes (cmdLine p)))) = contents ?f @ toBytes (cmdLine p)"
    and "\<not> snd (Write ?f (toBytes (cmdLine p)))"
    by auto
  then show ?thesis
    using False
    by (simp add: writeAof_def write_command_def notify_def sync_if_always_def Let_def
        split_beta)
qed

theorem writeAof_appends_witness:
  "writes_complete 2 \<lparr>contents = ''x'', syncs = 0, pending = [Complete, Complete, Short 0]\<rparr> \<and>
   contents (aofFile (writeAof multiBulk
      \<lparr>aofFile = \<lparr>contents = ''x'', syncs = 0, pending = [Complete, Complete, Short 0]\<rparr>,
       aofFsync = ''always'', currentDB = 0, listeners = [1], buffer = [], callbacks = [],
       warnings = 0\<rparr>
      \<lparr>cmdLine = [''GET'', ''k''], dbIndex = 3\<rparr>)) =
     ''x'' @ multiBulk [''SELECT'', ''3''] @ multiBulk [''GET'', ''k'']"
proof -
  have i: "Itoa 3 = ''3''" by code_simp
  have w: "writes_complete 2 \<lparr>contents = ''x'', syncs = 0, pending = [Complete, Complete, Short 0]\<rparr>"
    by (simp add: writes_complete_def numeral_2_eq_2)
  show ?thesis
    using w writeAof_appends [of
      "\<lparr>cmdLine = [''GET'', ''k''], dbIndex = 3\<rparr>"
      "\<lparr>aofFile = \<lparr>contents = ''x'', syncs = 0, pending = [Complete, Complete, Short 0]\<rparr>,
       aofFsync = ''always'', currentDB = 0, listeners = [1], buffer = [], callbacks = [],
       warnings = 0\<rparr>" multiBulk]
    by (simp add: ToCmdLine_def i)
qed

section \<open>Properties of the concurrent map\<close>

lemma stored_keys_setShard:
  assumes "unat index < length (shards dict)"
  shows "stored_keys (setShard dict index s) + card (dom (shards dict ! unat index)) =
         stored_keys dict + card (dom s)"
proof -
  let ?xs = "map (\<lambda>s. card (dom s)) (shards dict)"
  have "sum_list (?xs[unat index := card (dom s)]) =
        sum_list ?xs + card (dom s) - ?xs ! unat index"
    using assms by (simp add: sum_list_update)
  moreover have "?xs ! unat index \<in> set ?xs"
    using assms by (intro nth_mem) simp
  then have "?xs ! unat index \<le> sum_list ?xs"
    by (simp add: member_le_sum_list)
  ultimately show ?thesis
    using assms by (simp add: stored_keys_def setShard_def map_update)
qed

lemma finite_setShard:
  assumes "\<forall>t \<in> set (shards dict). finite (dom t)" and "finite (dom s)"
  shows "\<forall>t \<in> set (shards (setShard dict index s)). finite (dom t)"
  using assms by (auto simp: setShard_def dest!: set_update_subset_insert [THEN subsetD])

lemma dict_inv_overwrite:
  assumes "dict_inv dict" and "getShard dict index = Inr s" and "s key \<noteq> None"
  shows "dict_inv (setShard dict index (s(key \<mapsto> v)))"
proof -
  from assms(2) have i: "unat index < length (shards dict)" and s: "s = shards dict ! unat index"
    by (auto simp: getShard_def split: if_splits)
  from assms(3) have "insert key (dom s) = dom s" by auto
  then have "card (dom (s(key \<mapsto> v))) = card (dom s)" by simp
  with stored_keys_setShard [OF i, of "s(key \<mapsto> v)"] s
  have "stored_keys (setShard dict index (s(key \<mapsto> v))) = stored_keys dict" by simp
  moreover have "finite (dom s)" using assms(1) i s by (simp add: dict_inv_def)
  then have "\<forall>t \<in> set (shards (setShard dict index (s(key \<mapsto> v)))). finite (dom t)"
    using assms(1) by (intro finite_setShard) (simp_all add: dict_inv_def)
  ultimately show ?thesis using assms(1) by (simp add: dict_inv_def setShard_def)
qed

lemma dict_inv_insert:
  assumes "dict_inv dict" and "getShard dict index = Inr s" and "s key = None"
  shows "dict_inv (addCount (setShard dict index (s(key \<mapsto> v))))"
proof -
  from assms(2) have i: "unat index < length (shards dict)" and s: "s = shards dict ! unat index"
    by (auto simp: getShard_def split: if_splits)
  have fin: "finite (dom s)" using assms(1) i s by (simp add: dict_inv_def)
  from assms(3) have "key \<notin> dom s" by auto
  with fin have "card (dom (s(key \<mapsto> v))) = Suc (card (dom s))" by simp
  with stored_keys_setShard [OF i, of "s(key \<mapsto> v)"] s
  have "stored_keys (setShard dict index (s(key \<mapsto> v))) = Suc (stored_keys dict)" by simp
  moreover have "\<forall>t \<in> set (shards (setShard dict index (s(key \<mapsto> v)))). finite (dom t)"
    using assms(1) fin by (intro finite_setShard) (simp_all add: dict_inv_def)
  ultimately show ?thesis
    using assms(1) by (simp add: dict_inv_def setShard_def addCount_def stored_keys_def)
qed

lemma dict_inv_delete:
  assumes "dict_inv dict" and "getShard dict index = Inr s" and "s key = Some v"
  shows "dict_inv (decreaseCount (setShard dict index (s(key := None))))"
proof -
  let ?d = "setShard dict index (s(key := None))"
  from assms(2) have i: "unat index < length (shards dict)" and s: "s = shards dict ! unat index"
    by (auto simp: getShard_def split: if_splits)
  have fin: "finite (dom s)" using assms(1) i s by (simp add: dict_inv_def)
  from assms(3) have k: "key \<in> dom s" by auto
  have "dom (s(key := None)) = dom s - {key}" by auto
  then have "card (dom (s(key := None))) = card (dom s) - 1"
    using k by (simp only: card_Diff_singleton)
  moreover have "0 < card (dom s)"
    using fin k by (auto simp: card_gt_0_iff)
  ultimately have c: "Suc (card (dom (s(key := None)))) = card (dom s)"
    by linarith
  have t: "stored_keys dict = Suc (stored_keys ?d)"
    using stored_keys_setShard [OF i, of "s(key := None)"] c unfolding s [symmetric]
    by linarith
  have f: "\<forall>t \<in> set (shards ?d). finite (dom t)"
    using assms(1) fin by (intro finite_setShard) (simp_all add: dict_inv_def)
  have "count dict = of_nat (Suc (stored_keys ?d))"
    using assms(1) unfolding dict_inv_def t by simp
  then have "count dict + (-1) = (of_nat (stored_keys ?d) :: 32 word)"
    by simp
  moreover have "count (decreaseCount ?d) = count dict + (-1)"
    by (simp add: decreaseCount_def setShard_def)
  moreover have "stored_keys (decreaseCount ?d) = stored_keys ?d"
    by (simp add: decreaseCount_def stored_keys_def)
  moreover have "shards (decreaseCount ?d) = shards ?d"
    by (simp add: decreaseCount_def)
  ultimately show ?thesis
    unfolding dict_inv_def using f by simp
qed

lemma dict_inv_empty_shards:
  "dict_inv \<lparr>shards = replicate n Map.empty, count = 0, shardCount = c\<rparr>"
  by (simp add: dict_inv_def stored_keys_def sum_list_replicate)

lemma dict_inv_MakeConcurrent:
  assumes "MakeConcurrent sc = Inr dict"
  shows "dict_inv dict"
proof (cases "sc = 1")
  case True
  with assms have "dict = \<lparr>shards = replicate 1 Map.empty, count = 0, shardCount = sc\<rparr>"
    by (simp add: MakeConcurrent_def)
  then show ?thesis by (simp only: dict_inv_empty_shards)
next
  case False
  with assms have "dict = \<lparr>shards = replicate (nat (sint (computeCapacity sc))) Map.empty,
      count = 0, shardCount = computeCapacity sc\<rparr>"
    by (simp add: MakeConcurrent_def Let_def split: if_splits)
  then show ?thesis by (simp only: dict_inv_empty_shards)
qed

lemma reachable_dict_inv: "reachable dict \<Longrightarrow> dict_inv dict"
proof (induction rule: reachable.induct)
  case (r_Make sc dict)
  then show ?case by (rule dict_inv_MakeConcurrent)
next
  case (r_Put dict key v dict' r)
  then show ?case
    by (auto simp: Put_def Let_def dict_inv_overwrite dict_inv_insert
        split: sum.splits if_splits)
next
  case (r_PutWithLock dict key v dict' r)
  then show ?case
    by (auto simp: PutWithLock_def Let_def dict_inv_overwrite dict_inv_insert
        split: sum.splits if_splits)
next
  case (r_PutIfAbsent dict key v dict' r)
  then show ?case
    by (auto simp: PutIfAbsent_def Let_def dict_inv_insert split: sum.splits if_splits)
next
  case (r_PutIfAbsentWithLock dict key v dict' r)
  then show ?case
    by (auto simp: PutIfAbsentWithLock_def Let_def dict_inv_insert split: sum.splits if_splits)
next
  case (r_PutIfExists dict key v dict' r)
  then show ?case
    by (auto simp: PutIfExists_def Let_def dict_inv_overwrite split: sum.splits if_splits)
next
  case (r_PutIfExistsWithLock dict key v dict' r)
  then show ?case
    by (auto simp: PutIfExistsWithLock_def Let_def dict_inv_overwrite
        split: sum.splits if_splits)
next
  case (r_Remove dict key dict' old r)
  then show ?case
    by (auto simp: Remove_def Let_def dict_inv_delete [OF _ _ sym]
        split: sum.splits option.splits)
next
  case (r_RemoveWithLock dict key dict' old r)
  then show ?case
    by (auto simp: RemoveWithLock_def Let_def dict_inv_delete [OF _ _ sym]
        split: sum.splits option.splits)
next
  case (r_Clear dict dict')
  then show ?case by (simp add: Clear_def dict_inv_MakeConcurrent)
qed

text \<open>
  Claim C10. In every state that a sequence of \<open>Put\<close>, \<open>PutWithLock\<close>,
  \<open>PutIfAbsent\<close>, \<open>PutIfAbsentWithLock\<close>, \<open>PutIfExists\<close>,
  \<open>PutIfExistsWithLock\<close>, \<open>Remove\<close>, \<open>RemoveWithLock\<close> and \<open>Clear\<close> reaches
  from a new map, the counter is the number of keys stored across all shards: as a
  32-bit value always, and \<open>Len()\<close> returns that number as long as it fits an
  \<open>int32\<close>.
\<close>

theorem Len_counts_stored_keys:
  assumes "reachable dict"
  shows "count dict = of_nat (stored_keys dict) \<and>
         (stored_keys dict < 2 ^ 31 \<longrightarrow> DictLen dict = int (stored_keys dict))"
proof -
  from assms have c: "count dict = of_nat (stored_keys dict)"
    using reachable_dict_inv by (auto simp: dict_inv_def)
  have "sint (of_nat n :: 32 word) = int n" if "n < 2 ^ 31" for n
    using that by (simp add: signed_of_nat signed_take_bit_int_eq_self)
  with c show ?thesis by (simp add: DictLen_def)
qed

theorem Len_counts_stored_keys_witness:
  "reachable \<lparr>shards = [[''k'' \<mapsto> (1::nat)]], count = 1, shardCount = 1\<rparr> \<and>
   stored_keys \<lparr>shards = [[''k'' \<mapsto> (1::nat)]], count = 1, shardCount = 1\<rparr> < 2 ^ 31 \<and>
   DictLen \<lparr>shards = [[''k'' \<mapsto> (1::nat)]], count = 1, shardCount = 1\<rparr> = 1"
proof -
  let ?d0 = "\<lparr>shards = [Map.empty], count = 0, shardCount = 1\<rparr> :: nat ConcurrentDict"
  let ?d1 = "\<lparr>shards = [[''k'' \<mapsto> (1::nat)]], count = 1, shardCount = 1\<rparr>"
  have "MakeConcurrent 1 = Inr ?d0" by (simp add: MakeConcurrent_def)
  then have r0: "reachable ?d0" by (rule r_Make)
  have "Put ?d0 ''k'' 1 = Inr (?d1, 1)"
    by (simp add: Put_def dict_spread_def getShard_def setShard_def addCount_def)
  with r0 have r1: "reachable ?d1" by (rule r_Put)
  have s: "stored_keys ?d1 = 1" by (simp add: stored_keys_def)
  show ?thesis using r1 s Len_counts_stored_keys [OF r1] by simp
qed

end
